theory Spec2Isabelle
  imports Complex_Main "HOL-Library.AList" "HOL-Library.Multiset"
begin

section \<open>Python values used by SentimentAnalysis.py\<close>

text \<open>
  Exceptions that the modelled code can raise. \<open>RequestException\<close> stands for
  whatever \<^verbatim>\<open>requests.get\<close> raises on a transport error.
\<close>

datatype py_error = IndexError | TypeError | ZeroDivisionError | RequestException

text \<open>
  A dictionary key is an \<^verbatim>\<open>int\<close> or a \<^verbatim>\<open>str\<close>; Python never identifies
  \<^verbatim>\<open>1\<close> with \<^verbatim>\<open>"1"\<close>.
\<close>

datatype pykey = KInt int | KStr string

text \<open>
  A \<^verbatim>\<open>dict\<close> is an association list in insertion order with distinct keys:
  \<^verbatim>\<open>d[k] = v\<close> keeps the position of a key that is present and appends a new one;
  \<^verbatim>\<open>d.update(e)\<close> stores the items of \<open>e\<close> in their order; a dict comprehension
  stores the generated pairs one after the other into an empty dict.
\<close>

type_synonym ('k, 'v) dict = "('k \<times> 'v) list"

definition dict_setitem :: "('k, 'v) dict \<Rightarrow> 'k \<Rightarrow> 'v \<Rightarrow> ('k, 'v) dict" where
  "dict_setitem d k v = AList.update k v d"

definition dict_update :: "('k, 'v) dict \<Rightarrow> ('k, 'v) dict \<Rightarrow> ('k, 'v) dict" where
  "dict_update d e = foldl (\<lambda>acc (k, v). dict_setitem acc k v) d e"

definition dict_comprehension :: "('k \<times> 'v) list \<Rightarrow> ('k, 'v) dict" where
  "dict_comprehension kvs = dict_update [] kvs"

text \<open>Truthiness of a value that is \<^verbatim>\<open>None\<close>, a string, a list or a dict.\<close>

definition truthy :: "'a list option \<Rightarrow> bool" where
  "truthy x = (case x of None \<Rightarrow> False | Some xs \<Rightarrow> xs \<noteq> [])"

text \<open>
  \<^verbatim>\<open>str.strip()\<close> and \<^verbatim>\<open>str.split('\n')\<close> on text whose characters are
  code points below 256. The whitespace characters are those of \<^verbatim>\<open>str.isspace\<close>
  in that range.
\<close>

definition py_isspace :: "char \<Rightarrow> bool" where
  "py_isspace c =
     (let n = (of_char c :: nat)
      in (9 \<le> n \<and> n \<le> 13) \<or> (28 \<le> n \<and> n \<le> 32) \<or> n = 133 \<or> n = 160)"

definition py_strip :: "string \<Rightarrow> string" where
  "py_strip s = rev (dropWhile py_isspace (rev (dropWhile py_isspace s)))"

fun py_split_newline :: "string \<Rightarrow> string list" where
  "py_split_newline [] = [[]]"
| "py_split_newline (c # cs) =
     (if c = CHR 0x0A then [] # py_split_newline cs
      else (case py_split_newline cs of
              [] \<Rightarrow> [[c]]
            | w # ws \<Rightarrow> (c # w) # ws))"

definition py_index :: "'a list \<Rightarrow> nat \<Rightarrow> py_error + 'a" where
  "py_index xs i = (if i < length xs then Inr (xs ! i) else Inl IndexError)"

section \<open>ReviewScraper\<close>

text \<open>
  What \<^verbatim>\<open>scrape_page\<close> reads from a parsed page: the text of the
  \<^verbatim>\<open>rating-out-of-text\<close> span if \<^verbatim>\<open>soup.find\<close> finds one, the text of every
  \<^verbatim>\<open>a.review-title\<close> element and of every \<^verbatim>\<open>review-body\<close> span, in document
  order (\<^verbatim>\<open>get_text()\<close> of each).
\<close>

record soup =
  rating_out_of_text :: "string option"
  review_title_items :: "string list"
  review_body_items :: "string list"

text \<open>
  \<^verbatim>\<open>get_soup\<close> performs the request for the URL of a page; the network is the
  environment, so its outcome per page number is a parameter: \<open>Inl\<close> when the request
  raises, \<open>Inr None\<close> for a status code other than 200, \<open>Inr (Some soup)\<close> otherwise.
\<close>

type_synonym fetcher = "int \<Rightarrow> py_error + soup option"

text \<open>The tuple \<^verbatim>\<open>(page_num, review_titles, review_contents, star_rating)\<close>.\<close>

type_synonym page_result =
  "int \<times> (int, string) dict option \<times> string list option \<times> string option"

text \<open>\<^verbatim>\<open>item.get_text().strip().split('\n')[1]\<close>\<close>

definition title_text :: "string \<Rightarrow> py_error + string" where
  "title_text item = py_index (py_split_newline (py_strip item)) 1"

text \<open>
  The pairs of the comprehension
  \<^verbatim>\<open>{i + 1: ... for i, item in enumerate(soup.find_all("a", "review-title"))}\<close>,
  \<open>i\<close> counting from the given start; the first item whose text has no second line
  raises.
\<close>

fun review_title_pairs :: "int \<Rightarrow> string list \<Rightarrow> py_error + (int \<times> string) list" where
  "review_title_pairs i [] = Inr []"
| "review_title_pairs i (item # items) =
     (case title_text item of
        Inl e \<Rightarrow> Inl e
      | Inr t \<Rightarrow> (case review_title_pairs (i + 1) items of
                   Inl e \<Rightarrow> Inl e
                 | Inr kvs \<Rightarrow> Inr ((i + 1, t) # kvs)))"

definition scrape_page :: "fetcher \<Rightarrow> int \<Rightarrow> py_error + page_result" where
  "scrape_page get_soup page_num =
     (case get_soup page_num of
        Inl e \<Rightarrow> Inl e
      | Inr None \<Rightarrow> Inr (page_num, None, None, None)
      | Inr (Some soup) \<Rightarrow>
          (let star_rating =
                 (if page_num = 1 then
                    (case rating_out_of_text soup of
                       Some txt \<Rightarrow> Some (py_strip txt)
                     | None \<Rightarrow> Some ''Not found'')
                  else None)
           in case review_title_pairs 0 (review_title_items soup) of
                Inl e \<Rightarrow> Inl e
              | Inr kvs \<Rightarrow>
                  Inr (page_num, Some (dict_comprehension kvs),
                       Some (map py_strip (review_body_items soup)), star_rating)))"

text \<open>
  A page fetch has failed when \<^verbatim>\<open>scrape_page\<close> raises or returns
  \<^verbatim>\<open>(page_num, None, None, None)\<close>.
\<close>

definition fetch_failed :: "py_error + page_result \<Rightarrow> bool" where
  "fetch_failed r =
     (case r of
        Inl e \<Rightarrow> True
      | Inr (page_num, ts, rs, sr) \<Rightarrow> ts = None \<and> rs = None \<and> sr = None)"

text \<open>The three values that \<^verbatim>\<open>scrape_reviews_concurrently\<close> accumulates and returns.\<close>

record corpus =
  titles :: "(pykey, string) dict"
  reviews :: "string list"
  product_star_rating :: "string option"

definition empty_corpus :: corpus where
  "empty_corpus = \<lparr>titles = [], reviews = [], product_star_rating = None\<rparr>"

text \<open>
  One iteration of the loop over \<^verbatim>\<open>as_completed(future_to_page)\<close>. A future is
  the page number it was submitted for together with what \<^verbatim>\<open>future.result()\<close>
  returns or raises; a raised exception is caught and only printed.
\<close>

definition merge_future :: "corpus \<Rightarrow> int \<times> (py_error + page_result) \<Rightarrow> corpus" where
  "merge_future c fut =
     (case snd fut of
        Inl exc \<Rightarrow> c
      | Inr (page_num, page_titles, page_reviews, star_rating) \<Rightarrow>
          (let c1 = (if truthy page_titles \<and> truthy page_reviews then
                       c\<lparr>titles := dict_update (titles c)
                                     (dict_comprehension
                                        (map (\<lambda>(i, title). (KInt (i + (page_num - 1) * 10), title))
                                             (the page_titles))),
                         reviews := reviews c @ the page_reviews\<rparr>
                     else c)
           in if truthy star_rating \<and> page_num = 1 then
                c1\<lparr>product_star_rating := star_rating\<rparr>
              else c1))"

text \<open>
  \<^verbatim>\<open>scrape_reviews_concurrently\<close>: one future per page of
  \<^verbatim>\<open>range(1, total_pages + 1)\<close>, merged in the order in which
  \<^verbatim>\<open>as_completed\<close> yields them. The scheduler is a parameter; \<open>completion_order\<close>
  says that it yields every submitted future exactly once.
\<close>

type_synonym scheduler =
  "(int \<times> (py_error + page_result)) list \<Rightarrow> (int \<times> (py_error + page_result)) list"

definition completion_order :: "scheduler \<Rightarrow> bool" where
  "completion_order as_completed = (\<forall>futs. mset (as_completed futs) = mset futs)"

definition scrape_reviews_concurrently :: "scheduler \<Rightarrow> fetcher \<Rightarrow> int \<Rightarrow> corpus" where
  "scrape_reviews_concurrently as_completed get_soup total_pages =
     (let future_to_page = map (\<lambda>page_num. (page_num, scrape_page get_soup page_num))
                               [1..total_pages]
      in foldl merge_future empty_corpus (as_completed future_to_page))"

text \<open>
  \<^verbatim>\<open>str(n)\<close> for an integer: its decimal digits (\<open>str_digits\<close>, for a number that
  is not negative), with a minus sign when negative.
\<close>

definition digit_char :: "nat \<Rightarrow> char" where
  "digit_char d = ''0123456789'' ! d"

function str_digits :: "int \<Rightarrow> string" where
  "str_digits n =
     (if n < 10 then [digit_char (nat n)]
      else str_digits (n div 10) @ [digit_char (nat (n mod 10))])"
  by pat_completeness auto
termination
  by (relation "measure nat") auto

declare str_digits.simps [simp del]

definition str_int :: "int \<Rightarrow> string" where
  "str_int i = (if i < 0 then CHR ''-'' # str_digits (- i) else str_digits i)"

text \<open>
  The JSON document that \<^verbatim>\<open>save_reviews_to_file\<close> writes: an object with the
  members \<^verbatim>\<open>star_rating\<close> (a string or null), \<^verbatim>\<open>titles\<close> (an object) and
  \<^verbatim>\<open>reviews\<close> (an array of strings). The names of a JSON object's members are
  strings: \<^verbatim>\<open>json.dump\<close> writes an \<^verbatim>\<open>int\<close> key as its decimal string, and
  \<^verbatim>\<open>json.load\<close> builds a dict with \<^verbatim>\<open>str\<close> keys from the members in order.
  The file system maps a path to the document stored there.
\<close>

record review_file =
  file_star_rating :: "string option"
  file_titles :: "(string \<times> string) list"
  file_reviews :: "string list"

type_synonym filesystem = "string \<rightharpoonup> review_file"

definition json_key :: "pykey \<Rightarrow> string" where
  "json_key k = (case k of KInt i \<Rightarrow> str_int i | KStr s \<Rightarrow> s)"

definition json_dump :: "(pykey, string) dict \<Rightarrow> string list \<Rightarrow> string option \<Rightarrow> review_file" where
  "json_dump ts rs sr =
     \<lparr>file_star_rating = sr, file_titles = map (\<lambda>(k, v). (json_key k, v)) ts, file_reviews = rs\<rparr>"

definition json_load_titles :: "review_file \<Rightarrow> (pykey, string) dict" where
  "json_load_titles data = dict_comprehension (map (\<lambda>(k, v). (KStr k, v)) (file_titles data))"

definition save_reviews_to_file ::
  "string \<Rightarrow> (pykey, string) dict \<Rightarrow> string list \<Rightarrow> string option \<Rightarrow> filesystem \<Rightarrow> filesystem" where
  "save_reviews_to_file file_path ts rs star_rating fs = fs(file_path \<mapsto> json_dump ts rs star_rating)"

definition load_reviews_from_file ::
  "string \<Rightarrow> filesystem \<Rightarrow> (pykey, string) dict option \<times> string list option \<times> string option" where
  "load_reviews_from_file file_path fs =
     (case fs file_path of
        Some data \<Rightarrow> (Some (json_load_titles data), Some (file_reviews data), file_star_rating data)
      | None \<Rightarrow> (None, None, None))"

section \<open>Floating point\<close>

text \<open>
  A Python \<^verbatim>\<open>float\<close> is an IEEE 754 double. A finite double is a rational number, and
  the model computes with these numbers: comparing two floats compares the numbers, and an
  arithmetic operation returns the exact result rounded to the nearest double, ties to the
  even mantissa. A double has 53 bits of mantissa; below \<open>2 ^ -1022\<close> the doubles have
  the fixed spacing \<open>2 ^ -1074\<close>. Overflow to infinity is left out: the floats of this
  program are polarity scores between -1 and 1, their sums and means, and ratios of counts
  times 100.
\<close>

text \<open>The number of binary digits of a positive integer.\<close>

function bit_length :: "int \<Rightarrow> int" where
  "bit_length n = (if n \<le> 0 then 0 else 1 + bit_length (n div 2))"
  by pat_completeness auto
termination
  by (relation "measure nat") auto

declare bit_length.simps [simp del]

definition pow2 :: "int \<Rightarrow> rat" where
  "pow2 e = (if 0 \<le> e then 2 ^ nat e else 1 / 2 ^ nat (- e))"

text \<open>The exponent \<open>e\<close> of a number other than 0: \<open>2 ^ e \<le> \<bar>x\<bar> < 2 ^ (e + 1)\<close>.\<close>

definition float_exponent :: "rat \<Rightarrow> int" where
  "float_exponent x =
     (case quotient_of \<bar>x\<bar> of (p, q) \<Rightarrow>
        let e = bit_length p - bit_length q
        in if pow2 e \<le> \<bar>x\<bar> then e else e - 1)"

definition round_half_even :: "rat \<Rightarrow> int" where
  "round_half_even x =
     (let f = \<lfloor>x\<rfloor>; d = x - of_int f
      in if d < 1 / 2 then f else if 1 / 2 < d then f + 1 else if even f then f else f + 1)"

definition round_double :: "rat \<Rightarrow> rat" where
  "round_double x =
     (if x = 0 then 0
      else let ulp = pow2 (max (float_exponent x) (- 1022) - 52)
           in of_int (round_half_even (x / ulp)) * ulp)"

text \<open>
  The builtin \<^verbatim>\<open>sum\<close> over floats starts from \<^verbatim>\<open>0\<close> and adds the items from left
  to right, rounding after each addition (CPython before version 3.12).
\<close>

definition py_sum :: "rat list \<Rightarrow> rat" where
  "py_sum xs = foldl (\<lambda>acc x. round_double (acc + x)) 0 xs"

section \<open>SentimentAnalyzer\<close>

definition validate_reviews :: "string list list \<Rightarrow> string list \<Rightarrow> string list list" where
  "validate_reviews rs vocab = map (filter (\<lambda>token. token \<in> set vocab)) rs"

text \<open>
  The dict \<^verbatim>\<open>sentiment_counts\<close> has the same five keys throughout. The compound
  polarity of a word (\<^verbatim>\<open>self.sia.polarity_scores(w)["compound"]\<close>, a float) is a
  parameter.
\<close>

record sentiment_counts =
  very_positive :: nat
  positive :: nat
  negative :: nat
  very_negative :: nat
  neutral :: nat

definition initial_counts :: sentiment_counts where
  "initial_counts = \<lparr>very_positive = 0, positive = 0, negative = 0, very_negative = 0, neutral = 0\<rparr>"

text \<open>\<^verbatim>\<open>sum(total_sentiment_counts.values())\<close>\<close>

definition sum_values :: "sentiment_counts \<Rightarrow> nat" where
  "sum_values c = very_positive c + positive c + negative c + very_negative c + neutral c"

text \<open>
  \<^verbatim>\<open>sum(self.sia.polarity_scores(w)["compound"] for w in review) / len(review)\<close>:
  the float sum divided by the length, in double arithmetic.
\<close>

definition score :: "(string \<Rightarrow> rat) \<Rightarrow> string list \<Rightarrow> rat" where
  "score polarity review =
     round_double (py_sum (map polarity review) / of_nat (length review))"

text \<open>
  The body of the loop \<^verbatim>\<open>for review in reviews\<close>. The literal \<^verbatim>\<open>0.05\<close> is the
  double nearest to 5/100.
\<close>

definition analyze_review ::
  "(string \<Rightarrow> rat) \<Rightarrow> sentiment_counts \<times> string list \<Rightarrow> string list
     \<Rightarrow> sentiment_counts \<times> string list" where
  "analyze_review polarity acc review =
     (case acc of (counts, review_sentiments) \<Rightarrow>
        if review = [] then (counts, review_sentiments)
        else
          let s = score polarity review
          in if s > round_double (5 / 100) then
               (counts\<lparr>positive := positive counts + 1\<rparr>, review_sentiments @ [''positive''])
             else if s > 0 then
               (counts\<lparr>very_positive := very_positive counts + 1\<rparr>,
                review_sentiments @ [''very positive''])
             else if s < - round_double (5 / 100) then
               (counts\<lparr>negative := negative counts + 1\<rparr>, review_sentiments @ [''negative''])
             else if s < 0 then
               (counts\<lparr>very_negative := very_negative counts + 1\<rparr>,
                review_sentiments @ [''very negative''])
             else
               (counts\<lparr>neutral := neutral counts + 1\<rparr>, review_sentiments @ [''neutral'']))"

definition analyze_sentiment ::
  "(string \<Rightarrow> rat) \<Rightarrow> string list list \<Rightarrow> sentiment_counts \<times> string list" where
  "analyze_sentiment polarity rs = foldl (analyze_review polarity) (initial_counts, []) rs"

section \<open>ReportGenerator\<close>

text \<open>
  \<^verbatim>\<open>a / b\<close> on two counts is the double nearest to the quotient, and raises when
  \<^verbatim>\<open>b\<close> is 0. \<^verbatim>\<open>"{:.4%}".format(x)\<close> multiplies the float by 100, in double
  arithmetic, and prints the product in fixed notation with four digits after the point,
  rounded to the nearest such decimal, ties to even, followed by a percent sign.
\<close>

definition py_truediv :: "nat \<Rightarrow> nat \<Rightarrow> py_error + rat" where
  "py_truediv a b =
     (if b = 0 then Inl ZeroDivisionError else Inr (round_double (of_nat a / of_nat b)))"

definition pad4 :: "string \<Rightarrow> string" where
  "pad4 s = replicate (4 - length s) CHR ''0'' @ s"

definition format_percent4 :: "rat \<Rightarrow> string" where
  "format_percent4 x =
     (let n = round_half_even (\<bar>round_double (x * 100)\<bar> * 10000)
      in (if x < 0 then [CHR ''-''] else []) @ str_digits (n div 10000) @ [CHR ''.'']
           @ pad4 (str_digits (n mod 10000)) @ [CHR ''%''])"

text \<open>
  What \<^verbatim>\<open>display_SIA_results\<close> prints: the total, the three percentages, one
  \<^verbatim>\<open>Review idx: title -> sentiment\<close> line per pair of the \<^verbatim>\<open>zip\<close>, and the star
  rating. The first division by \<^verbatim>\<open>total_reviews\<close> raises when it is 0.
\<close>

record sia_report =
  total_reviews :: nat
  overall_positive_reviews :: string
  overall_negative_reviews :: string
  overall_neutral_reviews :: string
  review_lines :: "(nat \<times> string \<times> string) list"
  compared_star_rating :: "string option"

definition enumerate1 :: "'a list \<Rightarrow> (nat \<times> 'a) list" where
  "enumerate1 xs = zip [1 ..< Suc (length xs)] xs"

definition display_SIA_results ::
  "sentiment_counts \<Rightarrow> string option \<Rightarrow> string list \<Rightarrow> (pykey, string) dict
     \<Rightarrow> py_error + sia_report" where
  "display_SIA_results total_sentiment_counts star_rating review_sentiments ts =
     (let total = sum_values total_sentiment_counts
      in case py_truediv (very_positive total_sentiment_counts + positive total_sentiment_counts) total of
           Inl e \<Rightarrow> Inl e
         | Inr pos \<Rightarrow>
        (case py_truediv (very_negative total_sentiment_counts + negative total_sentiment_counts) total of
           Inl e \<Rightarrow> Inl e
         | Inr neg \<Rightarrow>
        (case py_truediv (neutral total_sentiment_counts) total of
           Inl e \<Rightarrow> Inl e
         | Inr neu \<Rightarrow>
             Inr \<lparr>total_reviews = total,
                  overall_positive_reviews = format_percent4 pos,
                  overall_negative_reviews = format_percent4 neg,
                  overall_neutral_reviews = format_percent4 neu,
                  review_lines = map (\<lambda>((idx, sentiment), (idx_title, review_title)).
                                        (idx, review_title, sentiment))
                                     (zip (enumerate1 review_sentiments) ts),
                  compared_star_rating = star_rating\<rparr>)))"

text \<open>
  \<^verbatim>\<open>display_BERT_results\<close> first computes the percentage of positive predictions
  (its first three statements, \<open>positive_percentage\<close>); the loop then reads
  \<^verbatim>\<open>predictions[idx - 1]\<close> for every key of \<^verbatim>\<open>titles\<close>, where a \<^verbatim>\<open>str\<close> key
  raises \<^verbatim>\<open>TypeError\<close> and an index out of range \<^verbatim>\<open>IndexError\<close> (a negative
  index counts from the end); the percentage is printed after the loop.
\<close>

record bert_report =
  bert_overall_positive_reviews :: string
  bert_review_lines :: "(int \<times> string \<times> string) list"
  bert_star_rating :: "string option"

definition positive_percentage :: "string list \<Rightarrow> py_error + string" where
  "positive_percentage predictions =
     (let positive_reviews = length (filter (\<lambda>pred. pred = ''positive'') predictions);
          total = length predictions
      in case py_truediv positive_reviews total of
           Inl e \<Rightarrow> Inl e
         | Inr r \<Rightarrow> Inr (format_percent4 r))"

definition py_getitem :: "'a list \<Rightarrow> int \<Rightarrow> py_error + 'a" where
  "py_getitem xs i =
     (if 0 \<le> i \<and> i < int (length xs) then Inr (xs ! nat i)
      else if i < 0 \<and> - int (length xs) \<le> i then Inr (xs ! nat (int (length xs) + i))
      else Inl IndexError)"

fun bert_lines :: "(pykey, string) dict \<Rightarrow> string list \<Rightarrow> py_error + (int \<times> string \<times> string) list" where
  "bert_lines [] predictions = Inr []"
| "bert_lines ((KStr s, title) # ts) predictions = Inl TypeError"
| "bert_lines ((KInt idx, title) # ts) predictions =
     (case py_getitem predictions (idx - 1) of
        Inl e \<Rightarrow> Inl e
      | Inr p \<Rightarrow> (case bert_lines ts predictions of
                   Inl e \<Rightarrow> Inl e
                 | Inr ls \<Rightarrow> Inr ((idx, title, p) # ls)))"

definition display_BERT_results ::
  "(pykey, string) dict \<Rightarrow> string list \<Rightarrow> string option \<Rightarrow> py_error + bert_report" where
  "display_BERT_results ts predictions star_rating =
     (case positive_percentage predictions of
        Inl e \<Rightarrow> Inl e
      | Inr overall \<Rightarrow>
          (case bert_lines ts predictions of
             Inl e \<Rightarrow> Inl e
           | Inr ls \<Rightarrow>
               Inr \<lparr>bert_overall_positive_reviews = overall,
                    bert_review_lines = ls,
                    bert_star_rating = star_rating\<rparr>))"

section \<open>Example inputs\<close>

text \<open>
  Two review pages of one product: page 1 with the rating, one title and one review body,
  page 2 with one title and one body; every other page answers with a status other than
  200.
\<close>

definition example_page_1 :: soup where
  "example_page_1 =
     \<lparr>rating_out_of_text = Some ''4.5 out of 5'',
      review_title_items = [''5.0 out of 5 stars'' @ [CHR 0x0A] @ ''Great''],
      review_body_items = [''love it'']\<rparr>"

definition example_page_2 :: soup where
  "example_page_2 =
     \<lparr>rating_out_of_text = None,
      review_title_items = [''1.0 out of 5 stars'' @ [CHR 0x0A] @ ''Bad''],
      review_body_items = [''broke fast'']\<rparr>"

definition example_get_soup :: fetcher where
  "example_get_soup page_num =
     (if page_num = 1 then Inr (Some example_page_1)
      else if page_num = 2 then Inr (Some example_page_2)
      else Inr None)"

text \<open>Every request answers with a status other than 200.\<close>

definition failing_get_soup :: fetcher where
  "failing_get_soup page_num = Inr None"

text \<open>Page 1 fails; page 2 arrives, and its document has a rating element.\<close>

definition page_2_only_get_soup :: fetcher where
  "page_2_only_get_soup page_num =
     (if page_num = 2 then Inr (Some (example_page_2\<lparr>rating_out_of_text := Some ''4.5 out of 5''\<rparr>))
      else Inr None)"

text \<open>Page 1 fails; page 2 arrives with no review on it.\<close>

definition blank_page_2_get_soup :: fetcher where
  "blank_page_2_get_soup page_num =
     (if page_num = 2 then
        Inr (Some \<lparr>rating_out_of_text = None, review_title_items = [], review_body_items = []\<rparr>)
      else Inr None)"

text \<open>Page 1 arrives without a rating element.\<close>

definition no_rating_get_soup :: fetcher where
  "no_rating_get_soup page_num =
     (if page_num = 1 then Inr (Some (example_page_1\<lparr>rating_out_of_text := None\<rparr>))
      else Inr None)"

text \<open>Page 1 arrives with a review title and no review body.\<close>

definition title_only_get_soup :: fetcher where
  "title_only_get_soup page_num =
     (if page_num = 1 then Inr (Some (example_page_1\<lparr>review_body_items := []\<rparr>))
      else Inr None)"

text \<open>Page 1 carries eleven reviews, page 2 one.\<close>

definition crowded_get_soup :: fetcher where
  "crowded_get_soup page_num =
     (if page_num = 1 then
        Inr (Some \<lparr>rating_out_of_text = Some ''4.5 out of 5'',
                   review_title_items = replicate 11 (''5.0 out of 5 stars'' @ [CHR 0x0A] @ ''Great''),
                   review_body_items = replicate 11 ''love it''\<rparr>)
      else if page_num = 2 then Inr (Some example_page_2)
      else Inr None)"

text \<open>A lexicon with the scores \<^verbatim>\<open>0.4404\<close> and \<^verbatim>\<open>0.06\<close> for two words.\<close>

definition example_polarity :: "string \<Rightarrow> rat" where
  "example_polarity w =
     (if w = ''good'' then round_double (4404 / 10000)
      else if w = ''fine'' then round_double (6 / 100)
      else 0)"


section \<open>Dictionaries\<close>

lemma dict_setitem_fresh: "k \<notin> fst ` set d \<Longrightarrow> dict_setitem d k v = d @ [(k, v)]"
  unfolding dict_setitem_def by (induction d) auto

lemma dict_update_Cons: "dict_update d ((k, v) # e) = dict_update (dict_setitem d k v) e"
  by (simp add: dict_update_def)

lemma dict_update_Nil: "dict_update d [] = d"
  by (simp add: dict_update_def)

text \<open>Updating with fresh, distinct keys appends the items.\<close>

lemma dict_update_distinct:
  "distinct (map fst e) \<Longrightarrow> fst ` set d \<inter> fst ` set e = {} \<Longrightarrow> dict_update d e = d @ e"
proof (induction e arbitrary: d)
  case Nil
  show ?case by (simp add: dict_update_Nil)
next
  case (Cons kv e)
  obtain k v where kv: "kv = (k, v)" by (cases kv)
  from Cons.prems kv have fresh: "k \<notin> fst ` set d" by auto
  from Cons.prems kv have "distinct (map fst e)" "fst ` set (d @ [(k, v)]) \<inter> fst ` set e = {}"
    by auto
  then have "dict_update (d @ [(k, v)]) e = (d @ [(k, v)]) @ e" by (rule Cons.IH)
  with fresh kv show ?case by (simp add: dict_update_Cons dict_setitem_fresh)
qed

lemma dict_comprehension_distinct: "distinct (map fst kvs) \<Longrightarrow> dict_comprehension kvs = kvs"
  using dict_update_distinct [of kvs "[]"] by (simp add: dict_comprehension_def)

text \<open>Looking a key up after an update: the last item of the update with that key wins.\<close>

lemma map_of_dict_update: "map_of (dict_update d e) = map_of d ++ map_of (rev e)"
proof (induction e arbitrary: d)
  case Nil
  show ?case by (simp add: dict_update_Nil)
next
  case (Cons kv e)
  obtain k v where kv: "kv = (k, v)" by (cases kv)
  show ?case
    by (rule ext)
       (simp add: kv dict_update_Cons Cons.IH dict_setitem_def update_conv' map_add_def
             split: option.splits)
qed

lemma map_of_dict_update_notin:
  "k \<notin> fst ` set e \<Longrightarrow> map_of (dict_update d e) k = map_of d k"
  by (simp add: map_of_dict_update map_add_def map_of_eq_None_iff split: option.splits)
     (metis map_of_eq_None_iff option.distinct(1) set_rev)

lemma map_of_dict_update_in:
  "distinct (map fst e) \<Longrightarrow> (k, v) \<in> set e \<Longrightarrow> map_of (dict_update d e) k = Some v"
  by (simp add: map_of_dict_update map_add_def distinct_rev rev_map [symmetric])

section \<open>What one page contributes\<close>

lemma review_title_pairs_keys:
  "review_title_pairs i items = Inr kvs \<Longrightarrow>
     length kvs = length items \<and> (\<forall>k \<in> fst ` set kvs. i < k \<and> k \<le> i + int (length items))"
proof (induction items arbitrary: i kvs)
  case Nil
  then show ?case by simp
next
  case (Cons item items)
  from Cons.prems obtain t kvs' where
    t: "title_text item = Inr t" and rest: "review_title_pairs (i + 1) items = Inr kvs'"
    and kvs: "kvs = (i + 1, t) # kvs'"
    by (auto split: sum.splits)
  from Cons.IH [OF rest] kvs show ?case by auto
qed

lemma review_title_pairs_distinct:
  "review_title_pairs i items = Inr kvs \<Longrightarrow> distinct (map fst kvs)"
proof (induction items arbitrary: i kvs)
  case Nil
  then show ?case by simp
next
  case (Cons item items)
  from Cons.prems obtain t kvs' where
    t: "title_text item = Inr t" and rest: "review_title_pairs (i + 1) items = Inr kvs'"
    and kvs: "kvs = (i + 1, t) # kvs'"
    by (auto split: sum.splits)
  from review_title_pairs_keys [OF rest] have "i + 1 \<notin> fst ` set kvs'" by auto
  with Cons.IH [OF rest] kvs show ?case by simp
qed

text \<open>
  The three shapes of a result of \<open>scrape_page\<close>: an exception, the all-\<^verbatim>\<open>None\<close>
  tuple, or a page whose title dict is the list of generated pairs.
\<close>

lemma scrape_page_cases:
  obtains (raised) e where "scrape_page get_soup p = Inl e"
  | (no_soup) "scrape_page get_soup p = Inr (p, None, None, None)"
  | (page) soup kvs where "get_soup p = Inr (Some soup)"
      "review_title_pairs 0 (review_title_items soup) = Inr kvs"
      "scrape_page get_soup p =
         Inr (p, Some kvs, Some (map py_strip (review_body_items soup)),
              if p = 1 then (case rating_out_of_text soup of
                               Some txt \<Rightarrow> Some (py_strip txt) | None \<Rightarrow> Some ''Not found'')
              else None)"
proof (cases "get_soup p")
  case (Inl e)
  then show ?thesis using raised by (simp add: scrape_page_def)
next
  case (Inr so)
  show ?thesis
  proof (cases so)
    case None
    with Inr show ?thesis using no_soup by (simp add: scrape_page_def)
  next
    case (Some soup)
    show ?thesis
    proof (cases "review_title_pairs 0 (review_title_items soup)")
      case (Inl e)
      with Inr Some show ?thesis using raised by (simp add: scrape_page_def)
    next
      case (Inr kvs)
      with \<open>get_soup p = Inr so\<close> Some show ?thesis
        using page [of soup kvs] review_title_pairs_distinct [OF Inr]
        by (simp add: scrape_page_def dict_comprehension_distinct)
    qed
  qed
qed

lemma scrape_page_titles:
  assumes "scrape_page get_soup p = Inr (q, Some ts, rs, sr)"
  shows "q = p \<and> distinct (map fst ts) \<and> (\<forall>k \<in> fst ` set ts. 1 \<le> k \<and> k \<le> int (length ts)) \<and>
         (\<exists>bodies. rs = Some bodies)"
proof (cases rule: scrape_page_cases [of get_soup p])
  case (raised e)
  with assms show ?thesis by simp
next
  case no_soup
  with assms show ?thesis by simp
next
  case (page soup kvs)
  from page(3) assms have "q = p" "ts = kvs" "\<exists>bodies. rs = Some bodies" by simp_all
  with review_title_pairs_keys [OF page(2)] review_title_pairs_distinct [OF page(2)]
  show ?thesis by auto
qed

section \<open>The merge loop\<close>

text \<open>
  An observation of the corpus that every future either sets to \<open>r\<close> or leaves alone
  is \<open>r\<close> after the loop, in whatever order the futures are merged, as soon as one
  future sets it or it was \<open>r\<close> before.
\<close>

lemma foldl_merge_future_obs:
  assumes "\<forall>f \<in> set futs. (\<forall>c. obs (merge_future c f) = r) \<or> (\<forall>c. obs (merge_future c f) = obs c)"
    and "(\<exists>f \<in> set futs. \<forall>c. obs (merge_future c f) = r) \<or> obs c0 = r"
  shows "obs (foldl merge_future c0 futs) = r"
  using assms
proof (induction futs arbitrary: c0)
  case Nil
  then show ?case by simp
next
  case (Cons f futs)
  from Cons.prems(1) have rest: "\<forall>f \<in> set futs. (\<forall>c. obs (merge_future c f) = r) \<or> (\<forall>c. obs (merge_future c f) = obs c)"
    by simp
  have "(\<exists>f \<in> set futs. \<forall>c. obs (merge_future c f) = r) \<or> obs (merge_future c0 f) = r"
    using Cons.prems by (metis list.set_intros(1) set_ConsD)
  from Cons.IH [OF rest this] show ?case by simp
qed

lemma completion_order_set: "completion_order as_completed \<Longrightarrow> set (as_completed futs) = set futs"
  unfolding completion_order_def by (metis mset_eq_setD)

lemma completion_order_rev: "completion_order rev"
  by (simp add: completion_order_def)

lemma completion_order_id: "completion_order id"
  by (simp add: completion_order_def)

lemma merge_future_raised: "merge_future c (p, Inl e) = c"
  by (simp add: merge_future_def)

lemma merge_future_no_soup: "merge_future c (p, Inr (q, None, None, None)) = c"
  by (simp add: merge_future_def truthy_def)

lemma merge_future_rating:
  "product_star_rating (merge_future c (p, Inr (q, ts, rs, sr))) =
     (if truthy sr \<and> q = 1 then sr else product_star_rating c)"
  by (simp add: merge_future_def Let_def)

lemma global_keys_distinct:
  "distinct (map fst kvs) \<Longrightarrow>
     distinct (map fst (map (\<lambda>(i, title). (KInt (i + (q - 1) * 10), title)) kvs))"
  by (simp add: distinct_map comp_def case_prod_unfold inj_on_def)

lemma merge_future_titles:
  assumes "distinct (map fst kvs)"
  shows "titles (merge_future c (p, Inr (q, Some kvs, Some bodies, sr))) =
     (if kvs \<noteq> [] \<and> bodies \<noteq> [] then
        dict_update (titles c) (map (\<lambda>(i, title). (KInt (i + (q - 1) * 10), title)) kvs)
      else titles c)"
proof -
  have eq: "dict_comprehension (map (\<lambda>(i, title). (KInt (i + (q - 1) * 10), title)) kvs) =
      map (\<lambda>(i, title). (KInt (i + (q - 1) * 10), title)) kvs"
    by (rule dict_comprehension_distinct [OF global_keys_distinct [OF assms]])
  have "titles (merge_future c (p, Inr (q, Some kvs, Some bodies, sr))) =
     (if truthy (Some kvs) \<and> truthy (Some bodies) then
        dict_update (titles c)
          (dict_comprehension (map (\<lambda>(i, title). (KInt (i + (q - 1) * 10), title)) kvs))
      else titles c)"
    by (simp add: merge_future_def Let_def)
  then show ?thesis
    by (simp only: eq) (simp add: truthy_def)
qed

text \<open>A page of at most ten titles does not touch the keys of another page's block.\<close>

lemma merge_future_titles_other:
  assumes res: "\<And>q ts rs sr. scrape_page get_soup p = Inr (q, Some ts, rs, sr) \<Longrightarrow> length ts \<le> 10"
    and "p \<noteq> n" and "1 \<le> i" and "i \<le> 10"
  shows "map_of (titles (merge_future c (p, scrape_page get_soup p))) (KInt (i + (n - 1) * 10)) =
         map_of (titles c) (KInt (i + (n - 1) * 10))"
proof (cases rule: scrape_page_cases [of get_soup p])
  case (raised e)
  then show ?thesis by (simp add: merge_future_raised)
next
  case no_soup
  then show ?thesis by (simp add: merge_future_no_soup)
next
  case (page soup kvs)
  have d: "distinct (map fst kvs)" by (rule review_title_pairs_distinct [OF page(2)])
  have len: "length kvs \<le> 10" by (rule res [OF page(3)])
  have keys: "\<forall>k \<in> fst ` set kvs. 1 \<le> k \<and> k \<le> 10"
    using scrape_page_titles [OF page(3)] len by auto
  have "KInt (i + (n - 1) * 10) \<notin> fst ` set (map (\<lambda>(j, title). (KInt (j + (p - 1) * 10), title)) kvs)"
  proof
    assume "KInt (i + (n - 1) * 10) \<in> fst ` set (map (\<lambda>(j, title). (KInt (j + (p - 1) * 10), title)) kvs)"
    then obtain j where j: "j \<in> fst ` set kvs" "i + (n - 1) * 10 = j + (p - 1) * 10"
      by force
    from keys j(1) have "1 \<le> j" "j \<le> 10" by auto
    with j(2) assms(2-4) show False by arith
  qed
  then have "map_of (dict_update (titles c) (map (\<lambda>(j, title). (KInt (j + (p - 1) * 10), title)) kvs))
                (KInt (i + (n - 1) * 10)) = map_of (titles c) (KInt (i + (n - 1) * 10))"
    by (rule map_of_dict_update_notin)
  then show ?thesis
    unfolding page(3) merge_future_titles [OF d] by simp
qed

text \<open>The rating of the returned corpus, for every completion order.\<close>

lemma scrape_star_rating:
  assumes "completion_order as_completed"
  shows "product_star_rating (scrape_reviews_concurrently as_completed get_soup total_pages) =
     (if 1 \<le> total_pages then
        (case scrape_page get_soup 1 of
           Inl e \<Rightarrow> None
         | Inr (page_num, page_titles, page_reviews, star_rating) \<Rightarrow>
             if truthy star_rating then star_rating else None)
      else None)"
proof -
  define r where "r = (if 1 \<le> total_pages then
        (case scrape_page get_soup 1 of
           Inl e \<Rightarrow> None
         | Inr (page_num, page_titles, page_reviews, star_rating) \<Rightarrow>
             if truthy star_rating then star_rating else None)
      else None)"
  let ?futs = "map (\<lambda>page_num. (page_num, scrape_page get_soup page_num)) [1..total_pages]"
  have set_futs: "set (as_completed ?futs) = (\<lambda>p. (p, scrape_page get_soup p)) ` {1..total_pages}"
    by (simp add: completion_order_set [OF assms])
  have other: "product_star_rating (merge_future c (p, scrape_page get_soup p)) = product_star_rating c"
    if "p \<noteq> 1" for p c
    using that
    by (cases rule: scrape_page_cases [of get_soup p])
       (simp_all add: merge_future_raised merge_future_no_soup merge_future_rating)
  have first: "(\<forall>c. product_star_rating (merge_future c (1, scrape_page get_soup 1)) = r) \<or>
      (r = None \<and> (\<forall>c. product_star_rating (merge_future c (1, scrape_page get_soup 1)) = product_star_rating c))"
    if "1 \<le> total_pages"
    unfolding r_def using that
    by (cases rule: scrape_page_cases [of get_soup 1])
       (simp_all add: merge_future_raised merge_future_no_soup merge_future_rating truthy_def)
  have each: "\<forall>f \<in> set (as_completed ?futs).
      (\<forall>c. product_star_rating (merge_future c f) = r) \<or>
      (\<forall>c. product_star_rating (merge_future c f) = product_star_rating c)"
  proof
    fix f assume "f \<in> set (as_completed ?futs)"
    then obtain p where p: "p \<in> {1..total_pages}" "f = (p, scrape_page get_soup p)"
      unfolding set_futs by auto
    show "(\<forall>c. product_star_rating (merge_future c f) = r) \<or>
      (\<forall>c. product_star_rating (merge_future c f) = product_star_rating c)"
    proof (cases "p = 1")
      case True
      with p first show ?thesis by auto
    next
      case False
      with p other show ?thesis by simp
    qed
  qed
  have some: "(\<exists>f \<in> set (as_completed ?futs). \<forall>c. product_star_rating (merge_future c f) = r) \<or>
      product_star_rating empty_corpus = r"
  proof (cases "1 \<le> total_pages")
    case True
    then have mem: "(1, scrape_page get_soup 1) \<in> set (as_completed ?futs)"
      unfolding set_futs by simp
    from first [OF True] show ?thesis
    proof
      assume "\<forall>c. product_star_rating (merge_future c (1, scrape_page get_soup 1)) = r"
      with mem show ?thesis by blast
    next
      assume "r = None \<and> (\<forall>c. product_star_rating (merge_future c (1, scrape_page get_soup 1)) = product_star_rating c)"
      then show ?thesis by (simp add: empty_corpus_def)
    qed
  next
    case False
    then show ?thesis by (simp add: r_def empty_corpus_def)
  qed
  have "product_star_rating (foldl merge_future empty_corpus (as_completed ?futs)) = r"
    by (rule foldl_merge_future_obs [OF each some])
  then show ?thesis
    unfolding r_def by (simp add: scrape_reviews_concurrently_def)
qed

text \<open>Failed fetches leave the corpus as it was.\<close>

lemma scrape_all_failed:
  assumes "completion_order as_completed"
    and "\<forall>p \<in> {1..total_pages}. fetch_failed (scrape_page get_soup p)"
  shows "scrape_reviews_concurrently as_completed get_soup total_pages = empty_corpus"
proof -
  let ?futs = "map (\<lambda>page_num. (page_num, scrape_page get_soup page_num)) [1..total_pages]"
  have set_futs: "set (as_completed ?futs) = (\<lambda>p. (p, scrape_page get_soup p)) ` {1..total_pages}"
    by (simp add: completion_order_set [OF assms(1)])
  have "merge_future c (p, scrape_page get_soup p) = c" if "p \<in> {1..total_pages}" for p c
  proof -
    from assms(2) that have "fetch_failed (scrape_page get_soup p)" by blast
    then show ?thesis
      by (cases rule: scrape_page_cases [of get_soup p])
         (simp_all add: merge_future_raised merge_future_no_soup fetch_failed_def)
  qed
  then have "\<forall>f \<in> set (as_completed ?futs).
      (\<forall>c. id (merge_future c f) = empty_corpus) \<or> (\<forall>c. id (merge_future c f) = id c)"
    unfolding set_futs by auto
  then have "id (foldl merge_future empty_corpus (as_completed ?futs)) = empty_corpus"
    by (rule foldl_merge_future_obs) simp
  then show ?thesis by (simp add: scrape_reviews_concurrently_def)
qed

section \<open>Rounding\<close>

lemma pow2_pos: "0 < pow2 e"
  by (simp add: pow2_def)

text \<open>\<open>round_half_even\<close> returns a nearest integer, and the even one of two.\<close>

lemma round_half_even_nearest:
  "2 * \<bar>of_int (round_half_even z) - z\<bar> \<le> 1 \<and>
   (2 * \<bar>of_int (round_half_even z) - z\<bar> < 1 \<or> even (round_half_even z))"
proof -
  define f where "f = \<lfloor>z\<rfloor>"
  define d where "d = z - of_int f"
  have d: "0 \<le> d" "d < 1" unfolding d_def f_def by linarith+
  have z: "z = of_int f + d" by (simp add: d_def)
  consider "d < 1 / 2" | "1 / 2 < d" | "d = 1 / 2" by linarith
  then show ?thesis
  proof cases
    case 1
    then have "round_half_even z = f" by (simp add: round_half_even_def f_def d_def Let_def)
    with 1 d z show ?thesis by simp
  next
    case 2
    then have "round_half_even z = f + 1" by (simp add: round_half_even_def f_def d_def Let_def)
    with 2 d z show ?thesis by simp
  next
    case 3
    then have r: "round_half_even z = (if even f then f else f + 1)"
      by (simp add: round_half_even_def f_def d_def Let_def)
    then have "even (round_half_even z)" by simp
    moreover have half: "z - of_int f = 1 / 2" using 3 by (simp add: d_def)
    have "2 * \<bar>of_int (round_half_even z) - z\<bar> \<le> 1"
    proof (cases "even f")
      case True
      with r have "of_int (round_half_even z) - z = - (1 / 2)" using half by simp
      then show ?thesis by simp
    next
      case False
      with r have "of_int (round_half_even z) - z = 1 / 2" using half by simp
      then show ?thesis by simp
    qed
    ultimately show ?thesis by simp
  qed
qed


text \<open>
  \<open>round_double\<close> returns a double nearest to its argument, the one with the even
  mantissa of two: with \<open>e\<close> the exponent of the last mantissa bit, the result is an
  integer of at most 53 bits times \<open>2 ^ e\<close>, at most half of \<open>2 ^ e\<close> away.
\<close>

lemma pow2_powi: "pow2 e = 2 powi e"
  by (simp add: pow2_def power_int_def inverse_eq_divide power_one_over)

lemma bit_length_bounds:
  "0 < n \<Longrightarrow> 1 \<le> bit_length n \<and> 2 ^ nat (bit_length n - 1) \<le> n \<and> n < 2 ^ nat (bit_length n)"
proof (induction n rule: bit_length.induct)
  case (1 n)
  show ?case
  proof (cases "n = 1")
    case True
    have "bit_length 1 = 1"
      by (subst bit_length.simps, subst bit_length.simps) simp
    with True show ?thesis by simp
  next
    case False
    with "1.prems" have m: "0 < n div 2" by simp
    with 1 have ih: "1 \<le> bit_length (n div 2)" "2 ^ nat (bit_length (n div 2) - 1) \<le> n div 2"
      "n div 2 < 2 ^ nat (bit_length (n div 2))"
      by simp_all
    define b where "b = bit_length (n div 2)"
    have bl: "bit_length n = 1 + b"
      using "1.prems" unfolding b_def by (subst bit_length.simps) simp
    have nb: "nat b = Suc (nat (b - 1))" using ih(1) unfolding b_def by simp
    have "(2::int) ^ nat b = 2 * 2 ^ nat (b - 1)" by (subst nb) simp
    also have "\<dots> \<le> 2 * (n div 2)" using ih(2) unfolding b_def by simp
    also have "\<dots> \<le> n" by simp
    finally have lo: "2 ^ nat (bit_length n - 1) \<le> n" by (simp add: bl)
    have "n < 2 * (n div 2 + 1)" by presburger
    also have "\<dots> \<le> 2 * 2 ^ nat b" using ih(3) unfolding b_def by simp
    also have "\<dots> = 2 ^ nat (1 + b)" using ih(1) unfolding b_def by (simp add: nat_add_distrib)
    finally have hi: "n < 2 ^ nat (bit_length n)" by (simp add: bl)
    from lo hi ih(1) show ?thesis by (simp add: bl b_def)
  qed
qed

lemma float_exponent_bounds:
  assumes "x \<noteq> 0"
  shows "pow2 (float_exponent x) \<le> \<bar>x\<bar> \<and> \<bar>x\<bar> < pow2 (float_exponent x + 1)"
proof -
  obtain p q where pq: "quotient_of \<bar>x\<bar> = (p, q)" by (cases "quotient_of \<bar>x\<bar>")
  then have q: "0 < q" by (rule quotient_of_denom_pos)
  from pq have x: "\<bar>x\<bar> = of_int p / of_int q" by (rule quotient_of_div)
  from assms have "0 < \<bar>x\<bar>" by simp
  with x q have p: "0 < p" by (simp add: zero_less_divide_iff)
  define a where "a = bit_length p"
  define b where "b = bit_length q"
  note pa = bit_length_bounds [OF p, folded a_def]
  note qb = bit_length_bounds [OF q, folded b_def]
  have pr: "(2::rat) powi (a - 1) \<le> of_int p" "of_int p < (2::rat) powi a"
  proof -
    have "(2::rat) powi (a - 1) = of_int (2 ^ nat (a - 1))" using pa by (simp add: power_int_def)
    also have "\<dots> \<le> of_int p" using pa by (subst of_int_le_iff) simp
    finally show "(2::rat) powi (a - 1) \<le> of_int p" .
    have "(of_int p :: rat) < of_int (2 ^ nat a)" using pa by (subst of_int_less_iff) simp
    also have "\<dots> = 2 powi a" using pa by (simp add: power_int_def)
    finally show "of_int p < (2::rat) powi a" .
  qed
  have qr: "(2::rat) powi (b - 1) \<le> of_int q" "of_int q < (2::rat) powi b"
  proof -
    have "(2::rat) powi (b - 1) = of_int (2 ^ nat (b - 1))" using qb by (simp add: power_int_def)
    also have "\<dots> \<le> of_int q" using qb by (subst of_int_le_iff) simp
    finally show "(2::rat) powi (b - 1) \<le> of_int q" .
    have "(of_int q :: rat) < of_int (2 ^ nat b)" using qb by (subst of_int_less_iff) simp
    also have "\<dots> = 2 powi b" using qb by (simp add: power_int_def)
    finally show "of_int q < (2::rat) powi b" .
  qed
  have qpos: "(0::rat) < of_int q" using q by simp
  have upper: "\<bar>x\<bar> < 2 powi (a - b + 1)"
  proof -
    have "\<bar>x\<bar> < 2 powi a / of_int q" unfolding x using pr(2) qpos by (simp add: divide_strict_right_mono)
    also have "\<dots> \<le> 2 powi a / 2 powi (b - 1)"
      using qr(1) qpos by (intro divide_left_mono) (simp_all add: zero_less_mult_iff)
    also have "\<dots> = 2 powi (a - (b - 1))" by (subst power_int_diff) simp_all
    also have "a - (b - 1) = a - b + 1" by simp
    finally show ?thesis .
  qed
  have lower: "2 powi (a - b - 1) \<le> \<bar>x\<bar>"
  proof -
    have e: "a - b - 1 = (a - 1) - b" by simp
    have "(2::rat) powi (a - b - 1) = 2 powi ((a - 1) - b)" by (simp only: e)
    also have "\<dots> = 2 powi (a - 1) / 2 powi b" by (subst power_int_diff) simp_all
    also have "\<dots> \<le> of_int p / 2 powi b"
      using pr(1) by (intro divide_right_mono) simp_all
    also have "\<dots> \<le> of_int p / of_int q"
      using qr(2) qpos p by (intro divide_left_mono) (simp_all add: zero_less_mult_iff)
    finally show ?thesis unfolding x .
  qed
  have fe: "float_exponent x = (if 2 powi (a - b) \<le> \<bar>x\<bar> then a - b else a - b - 1)"
    by (simp add: float_exponent_def pq a_def b_def pow2_powi Let_def)
  show ?thesis
  proof (cases "(2::rat) powi (a - b) \<le> \<bar>x\<bar>")
    case True
    with fe upper show ?thesis by (simp add: pow2_powi)
  next
    case False
    with fe lower show ?thesis by (simp add: pow2_powi)
  qed
qed


lemma round_double_nearest:
  assumes "x \<noteq> 0" and e: "e = max (float_exponent x) (- 1022) - 52"
  shows "\<exists>k. round_double x = of_int k * pow2 e \<and> \<bar>k\<bar> \<le> 2 ^ 53 \<and>
           2 * \<bar>round_double x - x\<bar> \<le> pow2 e \<and>
           (2 * \<bar>round_double x - x\<bar> < pow2 e \<or> even k)"
proof -
  define ulp where "ulp = pow2 e"
  define z where "z = x / ulp"
  define k where "k = round_half_even z"
  have ulp: "0 < ulp" unfolding ulp_def by (rule pow2_pos)
  have rd: "round_double x = of_int k * ulp"
    using assms(1) by (simp add: round_double_def Let_def k_def z_def ulp_def e)
  have x: "x = z * ulp" using ulp by (simp add: z_def)
  have "round_double x - x = of_int k * ulp - z * ulp"
    by (simp only: rd x [symmetric])
  also have "\<dots> = (of_int k - z) * ulp"
    by (simp add: algebra_simps)
  finally have dist: "\<bar>round_double x - x\<bar> = \<bar>of_int k - z\<bar> * ulp"
    using ulp by (simp add: abs_mult)
  note near = round_half_even_nearest [of z, folded k_def]
  have le: "2 * \<bar>round_double x - x\<bar> \<le> ulp"
  proof -
    have "2 * \<bar>round_double x - x\<bar> = (2 * \<bar>of_int k - z\<bar>) * ulp" by (simp add: dist)
    also have "\<dots> \<le> 1 * ulp" using near ulp by (intro mult_right_mono) simp_all
    finally show ?thesis by simp
  qed
  have tie: "2 * \<bar>round_double x - x\<bar> < ulp \<or> even k"
  proof (cases "even k")
    case True
    then show ?thesis by simp
  next
    case False
    with near have "2 * \<bar>of_int k - z\<bar> < 1" by simp
    then have "(2 * \<bar>of_int k - z\<bar>) * ulp < 1 * ulp" using ulp by (intro mult_strict_right_mono)
    then show ?thesis by (simp add: dist)
  qed
  have "float_exponent x + 1 \<le> e + 53" by (simp add: e)
  then have "pow2 (float_exponent x + 1) \<le> pow2 (e + 53)"
    unfolding pow2_powi by (intro power_int_increasing) simp_all
  also have "pow2 (e + 53) = 2 ^ 53 * ulp"
    unfolding pow2_powi ulp_def by (subst power_int_add) simp_all
  finally have "\<bar>x\<bar> < 2 ^ 53 * ulp"
    using float_exponent_bounds [OF assms(1)] by simp
  then have "\<bar>z\<bar> * ulp < 2 ^ 53 * ulp" using ulp by (simp add: x abs_mult)
  then have zb: "\<bar>z\<bar> < 2 ^ 53" using ulp by simp
  have "\<bar>of_int k :: rat\<bar> \<le> \<bar>of_int k - z\<bar> + \<bar>z\<bar>"
    using abs_triangle_ineq [of "of_int k - z" z] by simp
  then have "2 * \<bar>of_int k :: rat\<bar> \<le> 2 * \<bar>of_int k - z\<bar> + 2 * \<bar>z\<bar>" by simp
  also have "\<dots> < 1 + 2 * 2 ^ 53" using near zb by linarith
  finally have "2 * \<bar>of_int k :: rat\<bar> < of_int (1 + 2 * 2 ^ 53)" by simp
  then have "(of_int (2 * \<bar>k\<bar>) :: rat) < of_int (1 + 2 * 2 ^ 53)" by simp
  then have "2 * \<bar>k\<bar> < 1 + 2 * 2 ^ 53" by (simp only: of_int_less_iff)
  then have kb: "\<bar>k\<bar> \<le> 2 ^ 53" by simp
  from rd kb le tie show ?thesis unfolding ulp_def by blast
qed


section \<open>The sentiment loop\<close>

lemma analyze_review_empty: "analyze_review polarity acc [] = acc"
  by (cases acc) (simp add: analyze_review_def)

lemma foldl_analyze_filter:
  "foldl (analyze_review polarity) acc (filter (\<lambda>r. r \<noteq> []) rs) = foldl (analyze_review polarity) acc rs"
  by (induction rs arbitrary: acc) (simp_all add: analyze_review_empty)

lemma analyze_review_nonempty:
  "review \<noteq> [] \<Longrightarrow>
     length (snd (analyze_review polarity acc review)) = Suc (length (snd acc)) \<and>
     sum_values (fst (analyze_review polarity acc review)) = Suc (sum_values (fst acc))"
  by (cases acc) (simp add: analyze_review_def sum_values_def Let_def)

lemma foldl_analyze_length:
  "length (snd (foldl (analyze_review polarity) acc rs)) = length (snd acc) + length (filter (\<lambda>r. r \<noteq> []) rs) \<and>
   sum_values (fst (foldl (analyze_review polarity) acc rs)) = sum_values (fst acc) + length (filter (\<lambda>r. r \<noteq> []) rs)"
proof (induction rs arbitrary: acc)
  case Nil
  show ?case by simp
next
  case (Cons r rs)
  show ?case
  proof (cases "r = []")
    case True
    then show ?thesis using Cons [of acc] by (simp add: analyze_review_empty)
  next
    case False
    then show ?thesis
      using Cons [of "analyze_review polarity acc r"] analyze_review_nonempty [OF False, of polarity acc]
      by simp
  qed
qed




section \<open>Formatting\<close>
















section \<open>Claims\<close>

text \<open>
  C1. The claim: when all fetches succeed, the reviews of the returned corpus are the
  pages' bodies concatenated in ascending page order, whatever the completion order.
  The loop of \<open>scrape_reviews_concurrently\<close> extends \<open>reviews\<close> in the order in which
  \<^verbatim>\<open>as_completed\<close> yields the futures. With the two example pages, both fetched
  successfully, the run in which page 1 completes first (\<open>id\<close>) and the run in which
  page 2 completes first (\<open>rev\<close>) return different corpora; the second has the body of
  page 2 before the body of page 1.
\<close>

theorem scrape_reviews_completion_order_example:
  "scrape_reviews_concurrently id example_get_soup 2 =
     \<lparr>titles = [(KInt 1, ''Great''), (KInt 11, ''Bad'')],
      reviews = [''love it'', ''broke fast''],
      product_star_rating = Some ''4.5 out of 5''\<rparr> \<and>
   scrape_reviews_concurrently rev example_get_soup 2 =
     \<lparr>titles = [(KInt 11, ''Bad''), (KInt 1, ''Great'')],
      reviews = [''broke fast'', ''love it''],
      product_star_rating = Some ''4.5 out of 5''\<rparr>"
proof -
  have "scrape_reviews_concurrently id example_get_soup 2 =
     \<lparr>titles = [(KInt 1, ''Great''), (KInt 11, ''Bad'')],
      reviews = [''love it'', ''broke fast''],
      product_star_rating = Some ''4.5 out of 5''\<rparr>"
    by code_simp
  moreover have "scrape_reviews_concurrently rev example_get_soup 2 =
     \<lparr>titles = [(KInt 11, ''Bad''), (KInt 1, ''Great'')],
      reviews = [''broke fast'', ''love it''],
      product_star_rating = Some ''4.5 out of 5''\<rparr>"
    by code_simp
  ultimately show ?thesis by (rule conjI)
qed

text \<open>
  C2. The claim: loading right after saving returns a corpus equal to the saved one.
  \<open>save_reviews_to_file\<close> writes the titles as a JSON object, whose member names are
  strings, so \<open>load_reviews_from_file\<close> returns the titles under the keys
  \<^verbatim>\<open>"1"\<close>, \<^verbatim>\<open>"2"\<close>, ... instead of \<^verbatim>\<open>1\<close>, \<^verbatim>\<open>2\<close>, ...; reviews and rating
  come back unchanged. With the loaded titles \<open>display_BERT_results\<close> raises
  \<^verbatim>\<open>TypeError\<close> at \<^verbatim>\<open>idx - 1\<close>, where it prints the report with the saved ones.
\<close>

theorem save_load_titles_keys_example:
  "load_reviews_from_file ''B0CHWRXH8B_reviews.json''
     (save_reviews_to_file ''B0CHWRXH8B_reviews.json''
        [(KInt 1, ''Great'')] [''love it''] (Some ''4.5 out of 5'') Map.empty) =
     (Some [(KStr ''1'', ''Great'')], Some [''love it''], Some ''4.5 out of 5'') \<and>
   display_BERT_results [(KStr ''1'', ''Great'')] [''positive''] (Some ''4.5 out of 5'') =
     Inl TypeError \<and>
   display_BERT_results [(KInt 1, ''Great'')] [''positive''] (Some ''4.5 out of 5'') =
     Inr \<lparr>bert_overall_positive_reviews = ''100.0000%'',
          bert_review_lines = [(1, ''Great'', ''positive'')],
          bert_star_rating = Some ''4.5 out of 5''\<rparr>"
proof -
  have "load_reviews_from_file ''B0CHWRXH8B_reviews.json''
     (save_reviews_to_file ''B0CHWRXH8B_reviews.json''
        [(KInt 1, ''Great'')] [''love it''] (Some ''4.5 out of 5'') Map.empty) =
     (Some [(KStr ''1'', ''Great'')], Some [''love it''], Some ''4.5 out of 5'')"
    by code_simp
  moreover have "display_BERT_results [(KStr ''1'', ''Great'')] [''positive''] (Some ''4.5 out of 5'') =
     Inl TypeError"
    by code_simp
  moreover have "display_BERT_results [(KInt 1, ''Great'')] [''positive''] (Some ''4.5 out of 5'') =
     Inr \<lparr>bert_overall_positive_reviews = ''100.0000%'',
          bert_review_lines = [(1, ''Great'', ''positive'')],
          bert_star_rating = Some ''4.5 out of 5''\<rparr>"
    by code_simp
  ultimately show ?thesis by blast
qed

text \<open>
  C3. The claim: \<open>scrape\<close> reports an orchestration failure, distinguishable from a
  corpus, exactly when \<open>total_pages < 1\<close> or every page fetch fails. The function has no
  such result: for \<open>total_pages = 0\<close>, and for three pages that all fail, it returns the
  empty corpus, which is also what it returns when page 1 fails and page 2 is fetched
  successfully with no review on it.
\<close>

theorem scrape_orchestration_failure_counterexample:
  "scrape_reviews_concurrently id failing_get_soup 0 = empty_corpus \<and>
   scrape_reviews_concurrently id failing_get_soup 3 = empty_corpus \<and>
   scrape_page blank_page_2_get_soup 2 = Inr (2, Some [], Some [], None) \<and>
   scrape_reviews_concurrently id blank_page_2_get_soup 2 = empty_corpus"
proof -
  have "scrape_reviews_concurrently id failing_get_soup 0 = empty_corpus"
    by code_simp
  moreover have "scrape_reviews_concurrently id failing_get_soup 3 = empty_corpus"
    by code_simp
  moreover have "scrape_page blank_page_2_get_soup 2 = Inr (2, Some [], Some [], None)"
    by code_simp
  moreover have "scrape_reviews_concurrently id blank_page_2_get_soup 2 = empty_corpus"
    by code_simp
  ultimately show ?thesis by blast
qed

text \<open>
  C3, as amended: \<open>scrape\<close> returns a corpus for every input. When \<open>total_pages < 1\<close>
  or every page fetch fails, the corpus is the empty one: no titles, no reviews, no
  rating, for every completion order.
\<close>

theorem scrape_all_failed_empty_corpus:
  assumes "completion_order as_completed"
    and "total_pages < 1 \<or> (\<forall>p \<in> {1..total_pages}. fetch_failed (scrape_page get_soup p))"
  shows "scrape_reviews_concurrently as_completed get_soup total_pages = empty_corpus"
proof -
  from assms(2) have "\<forall>p \<in> {1..total_pages}. fetch_failed (scrape_page get_soup p)"
    by auto
  with assms(1) show ?thesis by (rule scrape_all_failed)
qed

theorem scrape_all_failed_empty_corpus_witness:
  "fetch_failed (scrape_page failing_get_soup 1) \<and>
   fetch_failed (scrape_page failing_get_soup 2) \<and>
   fetch_failed (scrape_page failing_get_soup 3) \<and>
   scrape_reviews_concurrently rev failing_get_soup 3 = empty_corpus \<and>
   scrape_reviews_concurrently rev example_get_soup 0 = empty_corpus"
proof -
  have failed: "fetch_failed (scrape_page failing_get_soup p)" for p
    by (simp add: fetch_failed_def scrape_page_def failing_get_soup_def)
  then have "(3::int) < 1 \<or> (\<forall>p \<in> {1..3}. fetch_failed (scrape_page failing_get_soup p))"
    by simp
  with completion_order_rev
  have "scrape_reviews_concurrently rev failing_get_soup 3 = empty_corpus"
    by (rule scrape_all_failed_empty_corpus)
  moreover have "(0::int) < 1 \<or> (\<forall>p \<in> {1..0}. fetch_failed (scrape_page example_get_soup p))"
    by simp
  with completion_order_rev
  have "scrape_reviews_concurrently rev example_get_soup 0 = empty_corpus"
    by (rule scrape_all_failed_empty_corpus)
  ultimately show ?thesis using failed by simp
qed

text \<open>
  C4. The claim: when empty reviews were skipped, the report still pairs each label with
  the title of the review that produced it. \<open>display_SIA_results\<close> zips the labels with
  the titles by position. For two reviews titled \<^verbatim>\<open>Bad\<close> and \<^verbatim>\<open>Great\<close>, the first of
  which has no token left after \<open>validate_reviews\<close>, the only label comes from the second
  review and the report prints it beside the title of the first.
\<close>

theorem display_SIA_results_misaligned_example:
  "validate_reviews [[''the''], [''good'']] [''good''] = [[], [''good'']] \<and>
   analyze_sentiment example_polarity [[], [''good'']] =
     (initial_counts\<lparr>positive := 1\<rparr>, [''positive'']) \<and>
   display_SIA_results (initial_counts\<lparr>positive := 1\<rparr>) (Some ''4.5 out of 5'') [''positive'']
       [(KInt 1, ''Bad''), (KInt 2, ''Great'')] =
     Inr \<lparr>total_reviews = 1,
          overall_positive_reviews = ''100.0000%'',
          overall_negative_reviews = ''0.0000%'',
          overall_neutral_reviews = ''0.0000%'',
          review_lines = [(1, ''Bad'', ''positive'')],
          compared_star_rating = Some ''4.5 out of 5''\<rparr>"
proof -
  have "validate_reviews [[''the''], [''good'']] [''good''] = [[], [''good'']]"
    by code_simp
  moreover have "analyze_sentiment example_polarity [[], [''good'']] =
     (initial_counts\<lparr>positive := 1\<rparr>, [''positive''])"
    by code_simp
  moreover have "display_SIA_results (initial_counts\<lparr>positive := 1\<rparr>) (Some ''4.5 out of 5'') [''positive'']
       [(KInt 1, ''Bad''), (KInt 2, ''Great'')] =
     Inr \<lparr>total_reviews = 1,
          overall_positive_reviews = ''100.0000%'',
          overall_negative_reviews = ''0.0000%'',
          overall_neutral_reviews = ''0.0000%'',
          review_lines = [(1, ''Bad'', ''positive'')],
          compared_star_rating = Some ''4.5 out of 5''\<rparr>"
    by code_simp
  ultimately show ?thesis by blast
qed



text \<open>
  C6. A review with no token is skipped by \<open>analyze_sentiment\<close>: removing it from the
  input changes neither the counts nor the labels. The number of labels, and the sum of the
  counts, is the number of non-empty reviews, which can be less than the number of reviews.
\<close>

theorem analyze_sentiment_skips_empty:
  "analyze_sentiment polarity (rs @ [] # rs') = analyze_sentiment polarity (rs @ rs') \<and>
   analyze_sentiment polarity rs = analyze_sentiment polarity (filter (\<lambda>r. r \<noteq> []) rs) \<and>
   length (snd (analyze_sentiment polarity rs)) = length (filter (\<lambda>r. r \<noteq> []) rs) \<and>
   sum_values (fst (analyze_sentiment polarity rs)) = length (filter (\<lambda>r. r \<noteq> []) rs) \<and>
   length (snd (analyze_sentiment polarity [[], [w]])) < length [[], [w]]"
proof -
  have a: "analyze_sentiment polarity (rs @ [] # rs') = analyze_sentiment polarity (rs @ rs')"
    by (simp add: analyze_sentiment_def analyze_review_empty)
  have b: "analyze_sentiment polarity rs = analyze_sentiment polarity (filter (\<lambda>r. r \<noteq> []) rs)"
    by (simp add: analyze_sentiment_def foldl_analyze_filter)
  have c: "length (snd (analyze_sentiment polarity rs)) = length (filter (\<lambda>r. r \<noteq> []) rs)"
    "sum_values (fst (analyze_sentiment polarity rs)) = length (filter (\<lambda>r. r \<noteq> []) rs)" for rs
    using foldl_analyze_length [of polarity "(initial_counts, [])" rs]
    by (simp_all add: analyze_sentiment_def sum_values_def initial_counts_def)
  have d: "length (snd (analyze_sentiment polarity [[], [w]])) < length [[], [w]]"
    using c(1) [of "[[], [w]]"] by simp
  from a b c d show ?thesis by blast
qed

theorem analyze_sentiment_skips_empty_witness:
  "analyze_sentiment example_polarity [[], [''good''], []] =
     analyze_sentiment example_polarity [[''good'']] \<and>
   length (snd (analyze_sentiment example_polarity [[], [''good''], []])) = 1"
proof -
  note skip = analyze_sentiment_skips_empty [where polarity = example_polarity
      and rs = "[[], [''good''], []]" and rs' = "[]" and w = "''good''"]
  have a: "analyze_sentiment example_polarity [[], [''good''], []] =
     analyze_sentiment example_polarity [[''good'']]"
    using skip [THEN conjunct2, THEN conjunct1] by simp
  have b: "length (snd (analyze_sentiment example_polarity [[], [''good''], []])) = 1"
    using skip [THEN conjunct2, THEN conjunct2, THEN conjunct1] by simp
  from a b show ?thesis by (rule conjI)
qed

text \<open>
  C7. The rating of the returned corpus is the truthy rating of the result of page 1,
  and absent otherwise, for every completion order; the results of the other pages do
  not enter. In particular it is absent when the fetch of page 1 fails, whatever the
  documents of the other pages contain.
\<close>

theorem star_rating_only_from_page_1:
  assumes "completion_order as_completed"
  shows "product_star_rating (scrape_reviews_concurrently as_completed get_soup total_pages) =
     (if 1 \<le> total_pages then
        (case scrape_page get_soup 1 of
           Inl e \<Rightarrow> None
         | Inr (page_num, page_titles, page_reviews, star_rating) \<Rightarrow>
             if truthy star_rating then star_rating else None)
      else None) \<and>
     (fetch_failed (scrape_page get_soup 1) \<longrightarrow>
        product_star_rating (scrape_reviews_concurrently as_completed get_soup total_pages) = None)"
proof -
  note eq = scrape_star_rating [OF assms, of get_soup total_pages]
  have "product_star_rating (scrape_reviews_concurrently as_completed get_soup total_pages) = None"
    if "fetch_failed (scrape_page get_soup 1)"
    using that unfolding eq
    by (cases rule: scrape_page_cases [of get_soup 1]) (simp_all add: fetch_failed_def truthy_def)
  with eq show ?thesis by blast
qed

theorem star_rating_only_from_page_1_witness:
  "fetch_failed (scrape_page page_2_only_get_soup 1) \<and>
   page_2_only_get_soup 2 = Inr (Some (example_page_2\<lparr>rating_out_of_text := Some ''4.5 out of 5''\<rparr>)) \<and>
   product_star_rating (scrape_reviews_concurrently rev page_2_only_get_soup 2) = None"
proof -
  have failed: "fetch_failed (scrape_page page_2_only_get_soup 1)"
    by (simp add: fetch_failed_def scrape_page_def page_2_only_get_soup_def)
  with star_rating_only_from_page_1 [OF completion_order_rev, of page_2_only_get_soup 2]
  have "product_star_rating (scrape_reviews_concurrently rev page_2_only_get_soup 2) = None"
    by blast
  with failed show ?thesis by (simp add: page_2_only_get_soup_def)
qed

text \<open>
  C8. The claim: every title of every successfully fetched page is in the titles of the
  corpus at \<open>i + (n - 1) * 10\<close>. Two runs where it is not: page 1 is fetched with one
  title and no review body, and the guard \<^verbatim>\<open>if page_titles and page_reviews\<close> keeps its
  title out of the corpus; page 1 carries eleven titles and page 2 one, so that title 11 of
  page 1 and title 1 of page 2 both go to key 11, and the corpus keeps the one of the page
  that completes last.
\<close>

theorem scrape_titles_global_index_counterexample:
  "scrape_page title_only_get_soup 1 =
     Inr (1, Some [(1, ''Great'')], Some [], Some ''4.5 out of 5'') \<and>
   map_of (titles (scrape_reviews_concurrently id title_only_get_soup 1)) (KInt (1 + (1 - 1) * 10)) = None \<and>
   scrape_page crowded_get_soup 1 =
     Inr (1, Some (zip [1..11] (replicate 11 ''Great'')), Some (replicate 11 ''love it''),
          Some ''4.5 out of 5'') \<and>
   scrape_page crowded_get_soup 2 = Inr (2, Some [(1, ''Bad'')], Some [''broke fast''], None) \<and>
   map_of (titles (scrape_reviews_concurrently id crowded_get_soup 2)) (KInt (11 + (1 - 1) * 10)) = Some ''Bad'' \<and>
   map_of (titles (scrape_reviews_concurrently rev crowded_get_soup 2)) (KInt (1 + (2 - 1) * 10)) = Some ''Great''"
proof -
  have "scrape_page title_only_get_soup 1 =
     Inr (1, Some [(1, ''Great'')], Some [], Some ''4.5 out of 5'')"
    by code_simp
  moreover have "map_of (titles (scrape_reviews_concurrently id title_only_get_soup 1)) (KInt (1 + (1 - 1) * 10)) = None"
    by code_simp
  moreover have "scrape_page crowded_get_soup 1 =
     Inr (1, Some (zip [1..11] (replicate 11 ''Great'')), Some (replicate 11 ''love it''),
          Some ''4.5 out of 5'')"
    by code_simp
  moreover have "scrape_page crowded_get_soup 2 = Inr (2, Some [(1, ''Bad'')], Some [''broke fast''], None)"
    by code_simp
  moreover have "map_of (titles (scrape_reviews_concurrently id crowded_get_soup 2)) (KInt (11 + (1 - 1) * 10)) = Some ''Bad''"
    by code_simp
  moreover have "map_of (titles (scrape_reviews_concurrently rev crowded_get_soup 2)) (KInt (1 + (2 - 1) * 10)) = Some ''Great''"
    by code_simp
  ultimately show ?thesis by blast
qed

text \<open>
  C8, as amended: when the result of page \<open>n\<close> has at least one title and at least one
  review body, merging it stores the title of local index \<open>i\<close> under the key
  \<open>i + (n - 1) * 10\<close>, whatever was merged before; and when no page's result has more
  than ten titles, the returned corpus has the title under that key for every completion
  order.
\<close>

theorem scrape_titles_global_index:
  assumes order: "completion_order as_completed"
    and n: "1 \<le> n" "n \<le> total_pages"
    and res: "scrape_page get_soup n = Inr (page_num, Some page_titles, Some page_reviews, star_rating)"
    and bodies: "page_reviews \<noteq> []"
    and it: "(i, title) \<in> set page_titles"
  shows "(\<forall>c. map_of (titles (merge_future c (n, scrape_page get_soup n)))
               (KInt (i + (n - 1) * 10)) = Some title) \<and>
         ((\<forall>p \<in> {1..total_pages}. \<forall>q ts rs sr.
              scrape_page get_soup p = Inr (q, Some ts, rs, sr) \<longrightarrow> length ts \<le> 10) \<longrightarrow>
          map_of (titles (scrape_reviews_concurrently as_completed get_soup total_pages))
            (KInt (i + (n - 1) * 10)) = Some title)"
proof (intro conjI impI)
  let ?k = "KInt (i + (n - 1) * 10)"
  let ?obs = "\<lambda>c. map_of (titles c) ?k"
  note shape = scrape_page_titles [OF res]
  have pn: "page_num = n" and d: "distinct (map fst page_titles)" using shape by simp_all
  from it have nonempty: "page_titles \<noteq> []" by auto
  have "(?k, title) \<in> set (map (\<lambda>(j, title). (KInt (j + (n - 1) * 10), title)) page_titles)"
    using it by force
  then have "map_of (dict_update (titles c) (map (\<lambda>(j, title). (KInt (j + (n - 1) * 10), title)) page_titles))
                ?k = Some title" for c
    by (rule map_of_dict_update_in [OF global_keys_distinct [OF d]])
  then have here: "?obs (merge_future c (n, scrape_page get_soup n)) = Some title" for c
    unfolding res pn merge_future_titles [OF d] using nonempty bodies by simp
  then show "\<forall>c. ?obs (merge_future c (n, scrape_page get_soup n)) = Some title"
    by simp
  assume at_most_ten: "\<forall>p \<in> {1..total_pages}. \<forall>q ts rs sr.
      scrape_page get_soup p = Inr (q, Some ts, rs, sr) \<longrightarrow> length ts \<le> 10"
  let ?futs = "map (\<lambda>page_num. (page_num, scrape_page get_soup page_num)) [1..total_pages]"
  have ten: "length ts \<le> 10"
    if "1 \<le> p" "p \<le> total_pages" "scrape_page get_soup p = Inr (q, Some ts, rs, sr)"
    for p q ts rs sr
    using at_most_ten that by auto
  have set_futs: "set (as_completed ?futs) = (\<lambda>p. (p, scrape_page get_soup p)) ` {1..total_pages}"
    by (simp add: completion_order_set [OF order])
  have "length page_titles \<le> 10" by (rule ten [OF n res])
  with shape it have i: "1 \<le> i" "i \<le> 10" by force+
  have each: "\<forall>f \<in> set (as_completed ?futs).
      (\<forall>c. ?obs (merge_future c f) = Some title) \<or> (\<forall>c. ?obs (merge_future c f) = ?obs c)"
  proof
    fix f assume "f \<in> set (as_completed ?futs)"
    then obtain p where p: "1 \<le> p" "p \<le> total_pages" "f = (p, scrape_page get_soup p)"
      unfolding set_futs by auto
    show "(\<forall>c. ?obs (merge_future c f) = Some title) \<or> (\<forall>c. ?obs (merge_future c f) = ?obs c)"
    proof (cases "p = n")
      case True
      with p(3) here show ?thesis by simp
    next
      case False
      have "?obs (merge_future c f) = ?obs c" for c
        unfolding p(3) by (rule merge_future_titles_other [OF ten [OF p(1,2)] False i])
      then show ?thesis by simp
    qed
  qed
  have "(n, scrape_page get_soup n) \<in> set (as_completed ?futs)"
    unfolding set_futs using n by simp
  with here have some: "(\<exists>f \<in> set (as_completed ?futs). \<forall>c. ?obs (merge_future c f) = Some title) \<or>
      ?obs empty_corpus = Some title"
    by blast
  have "?obs (foldl merge_future empty_corpus (as_completed ?futs)) = Some title"
    by (rule foldl_merge_future_obs [OF each some])
  then show "?obs (scrape_reviews_concurrently as_completed get_soup total_pages) = Some title"
    by (simp add: scrape_reviews_concurrently_def)
qed

theorem scrape_titles_global_index_witness:
  "scrape_page example_get_soup 2 = Inr (2, Some [(1, ''Bad'')], Some [''broke fast''], None) \<and>
   map_of (titles (merge_future empty_corpus (2, scrape_page example_get_soup 2)))
     (KInt (1 + (2 - 1) * 10)) = Some ''Bad'' \<and>
   map_of (titles (scrape_reviews_concurrently rev example_get_soup 2)) (KInt (1 + (2 - 1) * 10)) =
     Some ''Bad''"
proof -
  have p1: "scrape_page example_get_soup 1 =
      Inr (1, Some [(1, ''Great'')], Some [''love it''], Some ''4.5 out of 5'')"
    by code_simp
  have p2: "scrape_page example_get_soup 2 = Inr (2, Some [(1, ''Bad'')], Some [''broke fast''], None)"
    by code_simp
  have ten: "\<forall>p \<in> {1..2}. \<forall>q ts rs sr.
      scrape_page example_get_soup p = Inr (q, Some ts, rs, sr) \<longrightarrow> length ts \<le> 10"
  proof (intro ballI allI impI)
    fix p :: int and q ts rs sr
    assume "p \<in> {1..2}" and r: "scrape_page example_get_soup p = Inr (q, Some ts, rs, sr)"
    then have "p = 1 \<or> p = 2" by auto
    with r p1 p2 show "length ts \<le> 10" by auto
  qed
  have both: "(\<forall>c. map_of (titles (merge_future c (2, scrape_page example_get_soup 2)))
               (KInt (1 + (2 - 1) * 10)) = Some ''Bad'') \<and>
         ((\<forall>p \<in> {1..2}. \<forall>q ts rs sr.
              scrape_page example_get_soup p = Inr (q, Some ts, rs, sr) \<longrightarrow> length ts \<le> 10) \<longrightarrow>
          map_of (titles (scrape_reviews_concurrently rev example_get_soup 2))
            (KInt (1 + (2 - 1) * 10)) = Some ''Bad'')"
    by (rule scrape_titles_global_index [OF completion_order_rev _ _ p2]) simp_all
  from both have "map_of (titles (merge_future empty_corpus (2, scrape_page example_get_soup 2)))
     (KInt (1 + (2 - 1) * 10)) = Some ''Bad''"
    by blast
  moreover from both ten
  have "map_of (titles (scrape_reviews_concurrently rev example_get_soup 2)) (KInt (1 + (2 - 1) * 10)) =
     Some ''Bad''"
    by blast
  ultimately show ?thesis using p2 by blast
qed



text \<open>
  C10. When page 1 is fetched and its titles parse, but the document has no rating element,
  the rating of the returned corpus is the string \<^verbatim>\<open>Not found\<close>: a truthy value, which
  \<open>save_reviews_to_file\<close> stores and \<open>load_reviews_from_file\<close> returns as the rating.
\<close>

theorem star_rating_not_found_sentinel:
  assumes "completion_order as_completed" and "1 \<le> total_pages"
    and "get_soup 1 = Inr (Some soup)" and "rating_out_of_text soup = None"
    and "review_title_pairs 0 (review_title_items soup) = Inr kvs"
  shows "(let c = scrape_reviews_concurrently as_completed get_soup total_pages
          in product_star_rating c = Some ''Not found'' \<and>
             truthy (product_star_rating c) \<and>
             snd (snd (load_reviews_from_file file_path
                         (save_reviews_to_file file_path (titles c) (reviews c)
                            (product_star_rating c) fs))) = Some ''Not found'')"
proof -
  have "scrape_page get_soup 1 =
      Inr (1, Some (dict_comprehension kvs), Some (map py_strip (review_body_items soup)),
           Some ''Not found'')"
    using assms(3-5) by (simp add: scrape_page_def)
  with scrape_star_rating [OF assms(1), of get_soup total_pages] assms(2)
  have "product_star_rating (scrape_reviews_concurrently as_completed get_soup total_pages) =
      Some ''Not found''"
    by (simp add: truthy_def)
  then show ?thesis
    by (simp add: Let_def truthy_def load_reviews_from_file_def save_reviews_to_file_def
          json_dump_def)
qed

theorem star_rating_not_found_sentinel_witness:
  "no_rating_get_soup 1 = Inr (Some (example_page_1\<lparr>rating_out_of_text := None\<rparr>)) \<and>
   review_title_pairs 0 (review_title_items (example_page_1\<lparr>rating_out_of_text := None\<rparr>)) =
     Inr [(1, ''Great'')] \<and>
   product_star_rating (scrape_reviews_concurrently id no_rating_get_soup 1) = Some ''Not found''"
proof -
  have a: "no_rating_get_soup 1 = Inr (Some (example_page_1\<lparr>rating_out_of_text := None\<rparr>))"
    by (simp add: no_rating_get_soup_def)
  have b: "rating_out_of_text (example_page_1\<lparr>rating_out_of_text := None\<rparr>) = None"
    by simp
  have c: "review_title_pairs 0 (review_title_items (example_page_1\<lparr>rating_out_of_text := None\<rparr>)) =
     Inr [(1, ''Great'')]"
    by code_simp
  have d: "(1::int) \<le> 1" by simp
  from star_rating_not_found_sentinel [where as_completed = id and total_pages = 1
      and get_soup = no_rating_get_soup and file_path = "''f''" and fs = Map.empty,
      OF completion_order_id d a b c]
  have "product_star_rating (scrape_reviews_concurrently id no_rating_get_soup 1) = Some ''Not found''"
    by (simp add: Let_def)
  with a c show ?thesis by blast
qed

end
